theory Spec2Isabelle
  imports Main "HOL-Library.Word"
begin

section \<open>The XCM data model\<close>

text \<open>
  The README gives the Rust side of the tutorial (the matcher and the reserve filter of
  the runtime's XCM configuration) and the scripts give the JavaScript side. Both speak about the same wire values: a location is a
  number of parent hops and an ordered list of junctions, an asset is a location and a
  fungibility. The widths are those of the Rust types: \<open>parents\<close> and \<open>PalletInstance\<close> are
  \<open>u8\<close>, \<open>Parachain\<close> is \<open>u32\<close>, \<open>GeneralIndex\<close> and \<open>Index\<close> are \<open>u128\<close>, and the
  pallet's \<open>CollectionId\<close> and \<open>ItemId\<close> are \<open>u32\<close> (README, pallet-nfts configuration).
\<close>

type_synonym u8 = "8 word"
type_synonym u32 = "32 word"
type_synonym u128 = "128 word"

text \<open>
  The 32 bytes of an account id. The untyped script passes the public key as it is (a
  \<open>Uint8Array\<close>), the typed script wraps it with \<open>Binary.fromBytes\<close>.
\<close>

datatype IdValue = Uint8Array "u8 list" | Binary "u8 list"

fun id_bytes :: "IdValue \<Rightarrow> u8 list" where
  "id_bytes (Uint8Array bs) = bs"
| "id_bytes (Binary bs) = bs"

text \<open>
  The junctions the repository uses. \<open>network\<close> is an optional tag; the scripts always pass
  \<open>undefined\<close>, which is \<open>None\<close> here.
\<close>

datatype Junction =
    Parachain u32
  | PalletInstance u8
  | GeneralIndex u128
  | AccountId32 "nat option" IdValue

text \<open>
  \<open>interior\<close> is the list of junctions; the tag \<open>X1\<close>, \<open>X2\<close> of the JavaScript objects and of
  the Rust enum is the length of that list.
\<close>

record Location =
  parents :: u8
  interior :: "Junction list"

datatype AssetInstance =
    Undefined
  | Index u128
  | Array4 "u8 list"
  | Array8 "u8 list"
  | Array16 "u8 list"
  | Array32 "u8 list"

datatype Fungibility = Fungible u128 | NonFungible AssetInstance

text \<open>The fields \<open>id\<close> and \<open>fun\<close> of the source's \<open>Asset\<close>, renamed since both words are taken.\<close>

record Asset =
  asset_id :: Location
  asset_fun :: Fungibility

text \<open>The versioned wrapper \<open>{ type: "V4", value: ... }\<close>; the repository only builds V4.\<close>

datatype 'a Versioned = V4 'a

fun versioned_value :: "'a Versioned \<Rightarrow> 'a" where
  "versioned_value (V4 v) = v"

text \<open>\<open>Location::unpack\<close>: the pair of the parent count and the junction slice.\<close>

definition unpack :: "Location \<Rightarrow> u8 \<times> Junction list" where
  "unpack l = (parents l, interior l)"

section \<open>NftsMatcher and NftsFromSiblings (README)\<close>

text \<open>
  Modelled from the spec: the error enum of the matcher, with the spec's two match errors
  \<open>NotHandled\<close> (the code's \<open>Error::AssetNotHandled\<close>) and \<open>OutOfRange\<close>. The README uses
  the type \<open>Error\<close> of the XCM executor and does not declare it.
\<close>

datatype Error = AssetNotHandled | OutOfRange

text \<open>
  \<^verbatim>\<open>
  fn matches_nonfungibles(a: &Asset) -> Result<(u32, u32), Error> {
      match (&a.id.0.unpack(), &a.fun) {
          (
              (0, [PalletInstance(51), GeneralIndex(collection)]),
              Fungibility::NonFungible(AssetInstance::Index(item)),
          ) => Ok((*collection as u32, *item as u32)),
          _ => Err(Error::AssetNotHandled),
      }
  }
  \<close>
  \<open>as u32\<close> on a \<open>u128\<close> keeps the low 32 bits, which is \<open>ucast\<close>.
\<close>

definition matches_nonfungibles :: "Asset \<Rightarrow> Error + (u32 \<times> u32)" where
  "matches_nonfungibles a =
     (case (unpack (asset_id a), asset_fun a) of
        ((p, [PalletInstance n, GeneralIndex collection]), NonFungible (Index item)) \<Rightarrow>
          if p = 0 \<and> n = 51 then Inr (ucast collection, ucast item)
          else Inl AssetNotHandled
      | _ \<Rightarrow> Inl AssetNotHandled)"

text \<open>
  \<^verbatim>\<open>
  fn contains(asset: &Asset, origin: &Location) -> bool {
      matches!(
          (origin.unpack(), &asset.fun),
          ((1, [Parachain(_)]), Fungibility::NonFungible(_))
      )
  }
  \<close>
\<close>

definition NftsFromSiblings_contains :: "Asset \<Rightarrow> Location \<Rightarrow> bool" where
  "NftsFromSiblings_contains asset origin =
     (case (unpack origin, asset_fun asset) of
        ((p, [Parachain x]), NonFungible inst) \<Rightarrow> p = 1
      | _ \<Rightarrow> False)"

section \<open>The message builders of scripts/transfer-nft.js\<close>

definition PARACHAIN_A_ID :: nat where "PARACHAIN_A_ID = 1000"
definition PARACHAIN_B_ID :: nat where "PARACHAIN_B_ID = 1001"
definition NFTS_PALLET_INDEX :: nat where "NFTS_PALLET_INDEX = 51"
definition SS58_PREFIX :: nat where "SS58_PREFIX = 42"

text \<open>
  The scripts' numbers are natural numbers here; \<open>BigInt(collectionId)\<close> is the same number,
  and \<open>of_nat\<close> is its encoding into the field's width.
\<close>

definition buildNftAsset :: "nat \<Rightarrow> nat \<Rightarrow> Asset list Versioned" where
  "buildNftAsset collectionId itemId =
     V4 [\<lparr>asset_id = \<lparr>parents = 0,
                      interior = [PalletInstance (of_nat NFTS_PALLET_INDEX),
                                  GeneralIndex (of_nat collectionId)]\<rparr>,
          asset_fun = NonFungible (Index (of_nat itemId))\<rparr>]"

text \<open>The typed variant of the script has the same function, text for text.\<close>

definition buildNftAsset_typed :: "nat \<Rightarrow> nat \<Rightarrow> Asset list Versioned" where
  "buildNftAsset_typed collectionId itemId =
     V4 [\<lparr>asset_id = \<lparr>parents = 0,
                      interior = [PalletInstance (of_nat NFTS_PALLET_INDEX),
                                  GeneralIndex (of_nat collectionId)]\<rparr>,
          asset_fun = NonFungible (Index (of_nat itemId))\<rparr>]"

text \<open>The untyped variant: \<open>buildDestination(parachainId, recipientPublicKey)\<close>.\<close>

definition buildDestination :: "nat \<Rightarrow> u8 list \<Rightarrow> Location Versioned" where
  "buildDestination parachainId recipientPublicKey =
     V4 \<lparr>parents = 1,
         interior = [Parachain (of_nat parachainId),
                     AccountId32 None (Uint8Array recipientPublicKey)]\<rparr>"

text \<open>The typed variant: \<open>buildDestination(parachainId)\<close>.\<close>

definition buildDestination_typed :: "nat \<Rightarrow> Location Versioned" where
  "buildDestination_typed parachainId =
     V4 \<lparr>parents = 1, interior = [Parachain (of_nat parachainId)]\<rparr>"

definition buildBeneficiary :: "u8 list \<Rightarrow> Location Versioned" where
  "buildBeneficiary recipientPublicKey =
     V4 \<lparr>parents = 0, interior = [AccountId32 None (Uint8Array recipientPublicKey)]\<rparr>"

definition buildBeneficiary_typed :: "u8 list \<Rightarrow> Location Versioned" where
  "buildBeneficiary_typed recipientPublicKey =
     V4 \<lparr>parents = 0, interior = [AccountId32 None (Binary recipientPublicKey)]\<rparr>"

section \<open>The ledgers as the scripts reach them\<close>

text \<open>
  The value of \<open>api.query.Nfts.Item.getValue\<close> when the item exists; the scripts read
  its \<open>owner\<close> only.
\<close>

record Item =
  owner :: "u8 list"

text \<open>An event of a transaction, by \<open>event.type\<close> and \<open>event.value.type\<close>.\<close>

datatype Event = Event string string

record TxResult =
  block_hash :: string
  events :: "Event list"

datatype WeightLimit = Unlimited

text \<open>The argument of \<open>PolkadotXcm.limited_reserve_transfer_assets\<close>.\<close>

record Call =
  dest :: "Location Versioned"
  beneficiary :: "Location Versioned"
  assets :: "Asset list Versioned"
  fee_asset_item :: nat
  weight_limit :: WeightLimit

text \<open>
  What a script calls and does not define. A ledger has a state \<open>'w\<close>; an awaited call
  takes the state, answers \<open>Inl e\<close> when the promise rejects with \<open>e\<close> and \<open>Inr v\<close> when it
  resolves with \<open>v\<close>, and returns the state after the call. \<open>ss58Encode\<close> is a library
  function that may throw. The entries of \<open>Nfts.Collection\<close> are given by their collection
  ids; the scripts only count them. Console output is not part of the model. A call that
  never settles has no value here: the functions below describe awaited calls that
  settle, and the scripts put no timeout around them.
\<close>

record ('w, 'e, 's, 'a) Env =
  Item_getValue :: "nat \<Rightarrow> nat \<Rightarrow> 'w \<Rightarrow> ('e + Item option) \<times> 'w"
  Collection_getEntries :: "'w \<Rightarrow> ('e + nat list) \<times> 'w"
  signAndSubmit :: "Call \<Rightarrow> 's \<Rightarrow> 'w \<Rightarrow> ('e + TxResult) \<times> 'w"
  ss58Encode :: "u8 list \<Rightarrow> nat \<Rightarrow> 'e + 'a"

text \<open>
  \<^verbatim>\<open>
  async function queryNftOwner(client, collectionId, itemId) {
      const api = client.getUnsafeApi();
      try {
          const item = await api.query.Nfts.Item.getValue(collectionId, itemId);
          if (item) {
              return ss58Encode(item.owner, SS58_PREFIX);
          }
      } catch (e) {
          // Item doesn't exist
      }
      return null;
  }
  \<close>
  The \<open>try\<close> holds the query and the encoding, so an exception of either ends in
  \<open>return null\<close>, which is \<open>Inr None\<close>.
\<close>

definition queryNftOwner ::
  "('w, 'e, 's, 'a) Env \<Rightarrow> nat \<Rightarrow> nat \<Rightarrow> 'w \<Rightarrow> ('e + 'a option) \<times> 'w" where
  "queryNftOwner env collectionId itemId w =
     (case Item_getValue env collectionId itemId w of
        (Inr (Some item), w') \<Rightarrow>
          (case ss58Encode env (owner item) SS58_PREFIX of
             Inr address \<Rightarrow> (Inr (Some address), w')
           | Inl e \<Rightarrow> (Inr None, w'))
      | (Inr None, w') \<Rightarrow> (Inr None, w')
      | (Inl e, w') \<Rightarrow> (Inr None, w'))"

text \<open>The typed variant returns \<open>item.owner\<close> as it is.\<close>

definition queryNftOwner_typed ::
  "('w, 'e, 's, 'a) Env \<Rightarrow> nat \<Rightarrow> nat \<Rightarrow> 'w \<Rightarrow> ('e + u8 list option) \<times> 'w" where
  "queryNftOwner_typed env collectionId itemId w =
     (case Item_getValue env collectionId itemId w of
        (Inr (Some item), w') \<Rightarrow> (Inr (Some (owner item)), w')
      | (Inr None, w') \<Rightarrow> (Inr None, w')
      | (Inl e, w') \<Rightarrow> (Inr None, w'))"

text \<open>
  \<^verbatim>\<open>
  async function queryCollectionCount(client) {
      const api = client.getUnsafeApi();
      try {
          const collections = await api.query.Nfts.Collection.getEntries();
          return collections.length;
      } catch (e) {
          return 0;
      }
  }
  \<close>
\<close>

definition queryCollectionCount ::
  "('w, 'e, 's, 'a) Env \<Rightarrow> 'w \<Rightarrow> ('e + nat) \<times> 'w" where
  "queryCollectionCount env w =
     (case Collection_getEntries env w of
        (Inr collections, w') \<Rightarrow> (Inr (length collections), w')
      | (Inl e, w') \<Rightarrow> (Inr 0, w'))"

text \<open>
  \<open>transferNftToSibling\<close> of the untyped variant. Its fourth log line encodes the
  recipient's key, so an exception of \<open>ss58Encode\<close> rejects the call before anything is
  sent. Then it builds the three parts of the message and awaits \<open>tx.signAndSubmit(signer)\<close>;
  the loop over the events only prints, and the result of the submission is returned.
\<close>

definition transferNftToSibling ::
  "('w, 'e, 's, 'a) Env \<Rightarrow> 's \<Rightarrow> nat \<Rightarrow> nat \<Rightarrow> nat \<Rightarrow> u8 list \<Rightarrow> 'w
     \<Rightarrow> ('e + TxResult) \<times> 'w" where
  "transferNftToSibling env signer collectionId itemId destParachainId recipientPublicKey w =
     (case ss58Encode env recipientPublicKey SS58_PREFIX of
        Inl e \<Rightarrow> (Inl e, w)
      | Inr recipient \<Rightarrow>
          signAndSubmit env
            \<lparr>dest = buildDestination destParachainId recipientPublicKey,
             beneficiary = buildBeneficiary recipientPublicKey,
             assets = buildNftAsset collectionId itemId,
             fee_asset_item = 0,
             weight_limit = Unlimited\<rparr>
            signer w)"

text \<open>
  The \<open>try\<close> block of \<open>main\<close> (untyped variant), with both connections established and the
  two development keys derived: the owner of item 1 of collection 0 is queried on
  parachain A and printed, the transfer is submitted on A, the script sleeps 12 seconds,
  queries the owner on A again and counts the collections of parachain B. \<open>Inl e\<close> is the
  \<open>catch\<close> branch, which prints the error and exits with status 1; \<open>Inr ()\<close> is the normal
  end. The pair of states is that of parachain A and parachain B.
\<close>

definition main ::
  "('w, 'e, 's, 'a) Env \<Rightarrow> 's \<Rightarrow> u8 list \<Rightarrow> 'w \<times> 'w \<Rightarrow> ('e + unit) \<times> 'w \<times> 'w" where
  "main env alice bob_publicKey ws =
     (case ws of (wA, wB) \<Rightarrow>
        (case queryNftOwner env 0 1 wA of
           (Inl e, wA1) \<Rightarrow> (Inl e, wA1, wB)
         | (Inr ownerBefore, wA1) \<Rightarrow>
             (case transferNftToSibling env alice 0 1 PARACHAIN_B_ID bob_publicKey wA1 of
                (Inl e, wA2) \<Rightarrow> (Inl e, wA2, wB)
              | (Inr result, wA2) \<Rightarrow>
                  (case queryNftOwner env 0 1 wA2 of
                     (Inl e, wA3) \<Rightarrow> (Inl e, wA3, wB)
                   | (Inr ownerAfterA, wA3) \<Rightarrow>
                       (case queryCollectionCount env wB of
                          (Inl e, wB1) \<Rightarrow> (Inl e, wA3, wB1)
                        | (Inr collectionCount, wB1) \<Rightarrow> (Inr (), wA3, wB1))))))"

subsection \<open>A ledger to run the scripts against\<close>

text \<open>
  A small in-memory ledger serves as the concrete input of the examples below: the items
  with their owners, the collection ids, the calls it has received, and the failures its
  next queries will answer with (one per query, first come first served). A submission is
  always accepted and recorded. The two kinds of failure are the spec's: a connection
  error is transient, a malformed query is not.
\<close>

datatype Failure = ConnectionError | MalformedQuery

record Ledger =
  items :: "((nat \<times> nat) \<times> Item) list"
  collection_ids :: "nat list"
  submitted :: "Call list"
  outages :: "Failure list"

definition ledger_env :: "(Ledger, Failure, unit, u8 list) Env" where
  "ledger_env =
     \<lparr>Item_getValue = (\<lambda>c i w.
        case outages w of
          f # fs \<Rightarrow> (Inl f, w\<lparr>outages := fs\<rparr>)
        | [] \<Rightarrow> (Inr (map_of (items w) (c, i)), w)),
      Collection_getEntries = (\<lambda>w.
        case outages w of
          f # fs \<Rightarrow> (Inl f, w\<lparr>outages := fs\<rparr>)
        | [] \<Rightarrow> (Inr (collection_ids w), w)),
      signAndSubmit = (\<lambda>call signer w.
        (Inr \<lparr>block_hash = ''0x01'', events = [Event ''PolkadotXcm'' ''Sent'']\<rparr>,
         w\<lparr>submitted := submitted w @ [call]\<rparr>)),
      ss58Encode = (\<lambda>key prefix. Inr key)\<rparr>"

definition alice_key :: "u8 list" where
  "alice_key = replicate 32 0xA1"

definition bob_key :: "u8 list" where
  "bob_key = replicate 32 0xB0"

text \<open>The account of sibling 1001 on parachain A: \<open>sibl\<close>, the id in little endian, zeros.\<close>

definition sovereign_1001 :: "u8 list" where
  "sovereign_1001 = [0x73, 0x69, 0x62, 0x6C, 0xE9, 0x03, 0x00, 0x00] @ replicate 24 0"

text \<open>Parachain A before the transfer: Alice owns item 1 of collection 0.\<close>

definition ledger_A :: Ledger where
  "ledger_A = \<lparr>items = [((0, 1), \<lparr>owner = alice_key\<rparr>)], collection_ids = [0],
               submitted = [], outages = []\<rparr>"

text \<open>Parachain A with the transfer in flight: the sovereign account holds the item.\<close>

definition ledger_A_in_flight :: Ledger where
  "ledger_A_in_flight = \<lparr>items = [((0, 1), \<lparr>owner = sovereign_1001\<rparr>)], collection_ids = [0],
                         submitted = [], outages = []\<rparr>"

text \<open>Parachain B with two collections and no item (0, 1).\<close>

definition ledger_B :: Ledger where
  "ledger_B = \<lparr>items = [], collection_ids = [0, 1], submitted = [], outages = []\<rparr>"

section \<open>The reserve registry\<close>

text \<open>
  Modelled from the spec: the \<open>ReserveRegistry\<close> of section 4.5 and its errors, which are
  missing from the sources. The README only sketches the storage under "Foreign Asset
  Registry",
  \<^verbatim>\<open>type ForeignNfts = StorageMap<_, Blake2_128Concat, Location, CollectionId>;\<close>
  and has no code that writes to it.
\<close>

datatype RegistryError = AlreadyMapped | CollectionInUse

text \<open>
  Modelled from the spec: the entries \<open>{ foreignLocation, localCollectionId }\<close>, kept in the
  order they were written (an append-only log keyed by the foreign location). The
  collection id is the pallet's \<open>u32\<close>.
\<close>

type_synonym ReserveRegistry = "(Location \<times> u32) list"

text \<open>Modelled from the spec: \<open>resolve(foreignLocation) -> optional localCollectionId\<close>.\<close>

definition resolve :: "ReserveRegistry \<Rightarrow> Location \<Rightarrow> u32 option" where
  "resolve reg foreignLocation = map_of reg foreignLocation"

text \<open>Modelled from the spec: \<open>resolveReverse(localCollectionId) -> optional foreignLocation\<close>.\<close>

definition resolveReverse :: "ReserveRegistry \<Rightarrow> u32 \<Rightarrow> Location option" where
  "resolveReverse reg localCollectionId =
     map_of (map (\<lambda>(l, c). (c, l)) reg) localCollectionId"

text \<open>
  Modelled from the spec:
  \<open>register(foreignLocation, localCollectionId) -> Result<(), RegistryError>\<close>, with the
  registry after the call as the second component. It fails with \<open>AlreadyMapped\<close> if the
  foreign location has an entry, or with \<open>CollectionInUse\<close> if the local collection id is
  the target of an entry, and appends the entry otherwise; the two checks are made in the
  order the spec names them.
\<close>

definition register ::
  "Location \<Rightarrow> u32 \<Rightarrow> ReserveRegistry \<Rightarrow> (RegistryError + unit) \<times> ReserveRegistry" where
  "register foreignLocation localCollectionId reg =
     (if resolve reg foreignLocation \<noteq> None then (Inl AlreadyMapped, reg)
      else if resolveReverse reg localCollectionId \<noteq> None then (Inl CollectionInUse, reg)
      else (Inr (), reg @ [(foreignLocation, localCollectionId)]))"

text \<open>
  Modelled from the spec: a run of \<open>register\<close> calls, failed ones included, from a given
  registry; the spec has no other operation that writes.
\<close>

fun register_all :: "(Location \<times> u32) list \<Rightarrow> ReserveRegistry \<Rightarrow> ReserveRegistry" where
  "register_all [] reg = reg"
| "register_all ((l, c) # rs) reg = register_all rs (snd (register l c reg))"

text \<open>
  Modelled from the spec: the invariant of its data model, that no two entries share a
  foreign location and no two entries share a local collection id.
\<close>

definition injective :: "ReserveRegistry \<Rightarrow> bool" where
  "injective reg \<longleftrightarrow> distinct (map fst reg) \<and> distinct (map snd reg)"

section \<open>Matching\<close>

lemma matches_nonfungibles_nft:
  "matches_nonfungibles
     \<lparr>asset_id = \<lparr>parents = 0, interior = [PalletInstance 51, GeneralIndex g]\<rparr>,
      asset_fun = NonFungible (Index i)\<rparr> = Inr (ucast g, ucast i)"
  by (simp add: matches_nonfungibles_def unpack_def)

lemma ucast_of_nat_small:
  assumes "n < 2 ^ 32"
  shows "(ucast (of_nat n :: u128) :: u32) = of_nat n"
proof -
  have "n < 2 ^ 128"
    using assms by (rule less_le_trans) simp
  then have "take_bit 128 n = n"
    by (simp add: take_bit_nat_eq_self)
  then show ?thesis
    by (simp add: unsigned_of_nat)
qed

lemma unat_of_nat_u32:
  assumes "n < 2 ^ 32"
  shows "unat (of_nat n :: u32) = n"
  using assms by (simp add: unat_of_nat take_bit_nat_eq_self)

text \<open>
  C1. Round trip: for a collection id \<open>c\<close> and an item id \<open>i\<close> below \<open>2 ^ 32\<close>, the matcher
  accepts the one asset that \<open>buildNftAsset c i\<close> builds and returns the pair of 32-bit
  values whose numbers are \<open>c\<close> and \<open>i\<close>.
\<close>

theorem roundtrip_buildNftAsset:
  assumes "c < 2 ^ 32" and "i < 2 ^ 32"
  shows "map matches_nonfungibles (versioned_value (buildNftAsset c i))
           = [Inr (of_nat c, of_nat i)]
         \<and> unat (of_nat c :: u32) = c \<and> unat (of_nat i :: u32) = i"
  using assms
  by (simp add: buildNftAsset_def NFTS_PALLET_INDEX_def matches_nonfungibles_nft
      ucast_of_nat_small unat_of_nat_u32)

theorem roundtrip_buildNftAsset_witness:
  "map matches_nonfungibles (versioned_value (buildNftAsset 0 1)) = [Inr (0, 1)]
   \<and> map matches_nonfungibles (versioned_value (buildNftAsset 4294967295 7))
       = [Inr (4294967295, 7)]"
  using roundtrip_buildNftAsset [of 0 1] roundtrip_buildNftAsset [of 4294967295 7]
  by simp

text \<open>
  C2, as stated, fails: an asset of the NFT shape whose \<open>GeneralIndex\<close> is \<open>2 ^ 32\<close> is not
  answered with \<open>OutOfRange\<close>; the matcher succeeds with the truncated collection id 0.
  The same holds for an \<open>Index\<close> of \<open>2 ^ 32 + 2\<close>, which comes back as item 2.
\<close>

theorem overflow_truncates_counterexample:
  "matches_nonfungibles
     \<lparr>asset_id = \<lparr>parents = 0, interior = [PalletInstance 51, GeneralIndex 4294967296]\<rparr>,
      asset_fun = NonFungible (Index 1)\<rparr> = Inr (0, 1)
   \<and> matches_nonfungibles
     \<lparr>asset_id = \<lparr>parents = 0, interior = [PalletInstance 51, GeneralIndex 4294967296]\<rparr>,
      asset_fun = NonFungible (Index 1)\<rparr> \<noteq> Inl OutOfRange
   \<and> (4294967296 :: u128) = 2 ^ 32
   \<and> matches_nonfungibles
     \<lparr>asset_id = \<lparr>parents = 0, interior = [PalletInstance 51, GeneralIndex 7]\<rparr>,
      asset_fun = NonFungible (Index 4294967298)\<rparr> = Inr (7, 2)"
  by (simp add: matches_nonfungibles_nft)

text \<open>
  C2, amended: on every asset of the NFT shape the matcher succeeds, whatever the two
  128-bit numbers are, and returns them reduced modulo \<open>2 ^ 32\<close> (the cast \<open>as u32\<close>);
  it never answers \<open>OutOfRange\<close>.
\<close>

theorem matches_nonfungibles_mod_2_32:
  "\<exists>c t. matches_nonfungibles
            \<lparr>asset_id = \<lparr>parents = 0, interior = [PalletInstance 51, GeneralIndex g]\<rparr>,
             asset_fun = NonFungible (Index i)\<rparr> = Inr (c, t)
         \<and> unat c = unat g mod 2 ^ 32 \<and> unat t = unat i mod 2 ^ 32"
  by (simp add: matches_nonfungibles_nft unsigned_ucast_eq take_bit_eq_mod)

text \<open>
  C3. Rejection: an asset whose location is not \<open>parents = 0\<close> with exactly the junctions
  \<open>PalletInstance 51\<close>, \<open>GeneralIndex _\<close>, or whose fungibility is not
  \<open>NonFungible (Index _)\<close>, is answered with \<open>AssetNotHandled\<close>. The matcher is a total
  function of the asset alone: it has a value on every asset and no state to change.
\<close>

theorem matches_nonfungibles_rejects:
  assumes "(\<nexists>g. asset_id a = \<lparr>parents = 0, interior = [PalletInstance 51, GeneralIndex g]\<rparr>)
           \<or> (\<nexists>i. asset_fun a = NonFungible (Index i))"
  shows "matches_nonfungibles a = Inl AssetNotHandled"
proof (cases "asset_id a")
  case (fields p js)
  with assms show ?thesis
    by (auto simp: matches_nonfungibles_def unpack_def
        split: list.splits Junction.splits Fungibility.splits AssetInstance.splits)
qed

theorem matches_nonfungibles_rejects_witness:
  "matches_nonfungibles
     \<lparr>asset_id = \<lparr>parents = 0, interior = [PalletInstance 51, GeneralIndex 0]\<rparr>,
      asset_fun = Fungible 1\<rparr> = Inl AssetNotHandled
   \<and> matches_nonfungibles
     \<lparr>asset_id = \<lparr>parents = 1, interior = [PalletInstance 51, GeneralIndex 0]\<rparr>,
      asset_fun = NonFungible (Index 1)\<rparr> = Inl AssetNotHandled
   \<and> matches_nonfungibles
     \<lparr>asset_id = \<lparr>parents = 0, interior = [PalletInstance 50, GeneralIndex 0]\<rparr>,
      asset_fun = NonFungible (Index 1)\<rparr> = Inl AssetNotHandled
   \<and> matches_nonfungibles
     \<lparr>asset_id = \<lparr>parents = 0, interior = [PalletInstance 51, GeneralIndex 0, GeneralIndex 0]\<rparr>,
      asset_fun = NonFungible (Index 1)\<rparr> = Inl AssetNotHandled"
  using
    matches_nonfungibles_rejects [of
      "\<lparr>asset_id = \<lparr>parents = 0, interior = [PalletInstance 51, GeneralIndex 0]\<rparr>,
        asset_fun = Fungible 1\<rparr>"]
    matches_nonfungibles_rejects [of
      "\<lparr>asset_id = \<lparr>parents = 1, interior = [PalletInstance 51, GeneralIndex 0]\<rparr>,
        asset_fun = NonFungible (Index 1)\<rparr>"]
    matches_nonfungibles_rejects [of
      "\<lparr>asset_id = \<lparr>parents = 0, interior = [PalletInstance 50, GeneralIndex 0]\<rparr>,
        asset_fun = NonFungible (Index 1)\<rparr>"]
    matches_nonfungibles_rejects [of
      "\<lparr>asset_id = \<lparr>parents = 0, interior = [PalletInstance 51, GeneralIndex 0, GeneralIndex 0]\<rparr>,
        asset_fun = NonFungible (Index 1)\<rparr>"]
  by simp

section \<open>Reserve acceptance\<close>

text \<open>
  C5. Policy gating: \<open>NftsFromSiblings::contains\<close> is true exactly when the origin is
  \<open>parents = 1\<close> with the single junction \<open>Parachain x\<close> for some \<open>x\<close>, and the asset's
  fungibility is \<open>NonFungible\<close> of any instance. Read from right to left it is false for
  every \<open>Fungible\<close> asset and for every origin with another parent count or another
  interior.
\<close>

theorem NftsFromSiblings_contains_iff:
  "NftsFromSiblings_contains asset origin \<longleftrightarrow>
     (\<exists>x. origin = \<lparr>parents = 1, interior = [Parachain x]\<rparr>)
     \<and> (\<exists>inst. asset_fun asset = NonFungible inst)"
proof (cases origin)
  case (fields p js)
  then show ?thesis
    by (auto simp: NftsFromSiblings_contains_def unpack_def
        split: list.splits Junction.splits Fungibility.splits)
qed

theorem NftsFromSiblings_contains_iff_witness:
  "NftsFromSiblings_contains
     \<lparr>asset_id = \<lparr>parents = 0, interior = [PalletInstance 51, GeneralIndex 0]\<rparr>,
      asset_fun = NonFungible Undefined\<rparr>
     \<lparr>parents = 1, interior = [Parachain 1000]\<rparr>
   \<and> \<not> NftsFromSiblings_contains
     \<lparr>asset_id = \<lparr>parents = 0, interior = [PalletInstance 51, GeneralIndex 0]\<rparr>,
      asset_fun = Fungible 10\<rparr>
     \<lparr>parents = 1, interior = [Parachain 1000]\<rparr>
   \<and> \<not> NftsFromSiblings_contains
     \<lparr>asset_id = \<lparr>parents = 0, interior = [PalletInstance 51, GeneralIndex 0]\<rparr>,
      asset_fun = NonFungible (Index 1)\<rparr>
     \<lparr>parents = 2, interior = [Parachain 1000]\<rparr>
   \<and> \<not> NftsFromSiblings_contains
     \<lparr>asset_id = \<lparr>parents = 0, interior = [PalletInstance 51, GeneralIndex 0]\<rparr>,
      asset_fun = NonFungible (Index 1)\<rparr>
     \<lparr>parents = 1, interior = [Parachain 1000, PalletInstance 51]\<rparr>"
  by (simp add: NftsFromSiblings_contains_iff)

section \<open>Submitting and querying\<close>

text \<open>
  C4, as stated, fails: on a ledger where the sovereign account of parachain 1001 already
  owns item (0, 1), \<open>transferNftToSibling\<close> sends the transfer once more and returns the
  ledger's receipt, and so does the whole of \<open>main\<close>, which has queried the owner just
  before. Nothing is refused.
\<close>

theorem resubmission_in_flight_counterexample:
  "fst (Item_getValue ledger_env 0 1 ledger_A_in_flight)
     = Inr (Some \<lparr>owner = sovereign_1001\<rparr>)
   \<and> transferNftToSibling ledger_env () 0 1 PARACHAIN_B_ID bob_key ledger_A_in_flight
       = (Inr \<lparr>block_hash = ''0x01'', events = [Event ''PolkadotXcm'' ''Sent'']\<rparr>,
          ledger_A_in_flight
            \<lparr>submitted :=
               [\<lparr>dest = buildDestination 1001 bob_key,
                 beneficiary = buildBeneficiary bob_key,
                 assets = buildNftAsset 0 1,
                 fee_asset_item = 0,
                 weight_limit = Unlimited\<rparr>]\<rparr>)
   \<and> fst (main ledger_env () bob_key (ledger_A_in_flight, ledger_B)) = Inr ()
   \<and> length (submitted (fst (snd (main ledger_env () bob_key (ledger_A_in_flight, ledger_B)))))
       = 1"
  by (simp add: main_def transferNftToSibling_def queryNftOwner_def queryCollectionCount_def
      ledger_env_def ledger_A_in_flight_def ledger_B_def PARACHAIN_B_ID_def)

text \<open>
  C4, amended: for every request and every state of the source ledger, whoever owns the
  item there, \<open>transferNftToSibling\<close> makes the submission call with the message built from
  its arguments and returns what the ledger answers (once the recipient's key has been
  encoded for the log). It makes no ownership query and has no refusal of its own.
\<close>

theorem transferNftToSibling_submits:
  assumes "ss58Encode env recipientPublicKey SS58_PREFIX = Inr recipient"
  shows "transferNftToSibling env signer collectionId itemId destParachainId recipientPublicKey w
         = signAndSubmit env
            \<lparr>dest = V4 \<lparr>parents = 1,
                        interior = [Parachain (of_nat destParachainId),
                                    AccountId32 None (Uint8Array recipientPublicKey)]\<rparr>,
             beneficiary = V4 \<lparr>parents = 0,
                               interior = [AccountId32 None (Uint8Array recipientPublicKey)]\<rparr>,
             assets = V4 [\<lparr>asset_id = \<lparr>parents = 0,
                            interior = [PalletInstance 51, GeneralIndex (of_nat collectionId)]\<rparr>,
                          asset_fun = NonFungible (Index (of_nat itemId))\<rparr>],
             fee_asset_item = 0,
             weight_limit = Unlimited\<rparr>
            signer w"
  using assms
  by (simp add: transferNftToSibling_def buildDestination_def buildBeneficiary_def
      buildNftAsset_def NFTS_PALLET_INDEX_def)

theorem transferNftToSibling_submits_witness:
  "ss58Encode ledger_env bob_key SS58_PREFIX = Inr bob_key
   \<and> submitted (snd (transferNftToSibling ledger_env () 0 1 1001 bob_key ledger_A_in_flight))
     = [\<lparr>dest = V4 \<lparr>parents = 1,
                    interior = [Parachain 1001, AccountId32 None (Uint8Array bob_key)]\<rparr>,
         beneficiary = V4 \<lparr>parents = 0,
                           interior = [AccountId32 None (Uint8Array bob_key)]\<rparr>,
         assets = V4 [\<lparr>asset_id = \<lparr>parents = 0,
                                     interior = [PalletInstance 51, GeneralIndex 0]\<rparr>,
                      asset_fun = NonFungible (Index 1)\<rparr>],
         fee_asset_item = 0,
         weight_limit = Unlimited\<rparr>]"
proof -
  have h: "ss58Encode ledger_env bob_key SS58_PREFIX = Inr bob_key"
    by (simp add: ledger_env_def)
  show ?thesis
    using h transferNftToSibling_submits [OF h, of "()" 0 1 1001 ledger_A_in_flight]
    by (simp add: ledger_env_def ledger_A_in_flight_def)
qed

text \<open>
  C6, as stated, fails: a query that fails (here with a malformed query, on a ledger where
  Alice owns the item) is answered with \<open>null\<close>, the very answer given for an item that does
  not exist; the error is swallowed.
\<close>

theorem queryNftOwner_failure_counterexample:
  "fst (Item_getValue ledger_env 0 1 (ledger_A\<lparr>outages := [MalformedQuery]\<rparr>))
     = Inl MalformedQuery
   \<and> fst (queryNftOwner ledger_env 0 1 (ledger_A\<lparr>outages := [MalformedQuery]\<rparr>)) = Inr None
   \<and> fst (Item_getValue ledger_env 0 1 ledger_B) = Inr None
   \<and> fst (queryNftOwner ledger_env 0 1 ledger_B) = Inr None
   \<and> fst (queryNftOwner ledger_env 0 1 ledger_A) = Inr (Some alice_key)"
  by (simp add: queryNftOwner_def ledger_env_def ledger_A_def ledger_B_def)

text \<open>
  C6, amended: \<open>queryNftOwner\<close> returns the owner (encoded, in the untyped variant) when the
  item exists, and \<open>null\<close> when it does not; it also returns \<open>null\<close> when the query fails or
  the encoding throws, so \<open>null\<close> stands for absence and for failure alike.
\<close>

theorem queryNftOwner_answers:
  "(Item_getValue env c i w = (Inr (Some item), w')
      \<and> ss58Encode env (owner item) SS58_PREFIX = Inr address
      \<longrightarrow> queryNftOwner env c i w = (Inr (Some address), w'))
   \<and> (Item_getValue env c i w = (Inr (Some item), w')
      \<longrightarrow> queryNftOwner_typed env c i w = (Inr (Some (owner item)), w'))
   \<and> (Item_getValue env c i w = (Inr None, w')
      \<longrightarrow> queryNftOwner env c i w = (Inr None, w')
        \<and> queryNftOwner_typed env c i w = (Inr None, w'))
   \<and> (Item_getValue env c i w = (Inl e, w')
      \<longrightarrow> queryNftOwner env c i w = (Inr None, w')
        \<and> queryNftOwner_typed env c i w = (Inr None, w'))
   \<and> (Item_getValue env c i w = (Inr (Some item), w')
      \<and> ss58Encode env (owner item) SS58_PREFIX = Inl e
      \<longrightarrow> queryNftOwner env c i w = (Inr None, w'))"
  by (simp add: queryNftOwner_def queryNftOwner_typed_def)

theorem queryNftOwner_answers_witness:
  "queryNftOwner ledger_env 0 1 ledger_A = (Inr (Some alice_key), ledger_A)
   \<and> queryNftOwner_typed ledger_env 0 1 ledger_A = (Inr (Some alice_key), ledger_A)
   \<and> queryNftOwner ledger_env 0 1 ledger_B = (Inr None, ledger_B)
   \<and> queryNftOwner_typed ledger_env 0 1 ledger_B = (Inr None, ledger_B)
   \<and> queryNftOwner ledger_env 0 1 (ledger_A\<lparr>outages := [ConnectionError]\<rparr>)
       = (Inr None, ledger_A)
   \<and> queryNftOwner_typed ledger_env 0 1 (ledger_A\<lparr>outages := [ConnectionError]\<rparr>)
       = (Inr None, ledger_A)"
proof -
  have a: "Item_getValue ledger_env 0 1 ledger_A = (Inr (Some \<lparr>owner = alice_key\<rparr>), ledger_A)"
    by (simp add: ledger_env_def ledger_A_def)
  have enc: "ss58Encode ledger_env (owner \<lparr>owner = alice_key\<rparr>) SS58_PREFIX = Inr alice_key"
    by (simp add: ledger_env_def)
  have b: "Item_getValue ledger_env 0 1 ledger_B = (Inr None, ledger_B)"
    by (simp add: ledger_env_def ledger_B_def)
  have f: "Item_getValue ledger_env 0 1 (ledger_A\<lparr>outages := [ConnectionError]\<rparr>)
             = (Inl ConnectionError, ledger_A)"
    by (simp add: ledger_env_def ledger_A_def)
  show ?thesis
    using a enc b f
      queryNftOwner_answers [of ledger_env 0 1 ledger_A "\<lparr>owner = alice_key\<rparr>" ledger_A
        alice_key ConnectionError]
      queryNftOwner_answers [of ledger_env 0 1 ledger_B "\<lparr>owner = alice_key\<rparr>" ledger_B
        alice_key ConnectionError]
      queryNftOwner_answers [of ledger_env 0 1 "ledger_A\<lparr>outages := [ConnectionError]\<rparr>"
        "\<lparr>owner = alice_key\<rparr>" ledger_A alice_key ConnectionError]
    by simp
qed

text \<open>
  C8, as stated, fails on its second half: a query that rejects with a malformed query, a
  failure that is not transient, is not surfaced to the caller. \<open>queryCollectionCount\<close>
  answers 0 and \<open>queryNftOwner\<close> answers \<open>null\<close>, as if the ledger had no collection and no
  such item.
\<close>

theorem malformed_query_not_surfaced_counterexample:
  "fst (Collection_getEntries ledger_env (ledger_B\<lparr>outages := [MalformedQuery]\<rparr>))
     = Inl MalformedQuery
   \<and> queryCollectionCount ledger_env (ledger_B\<lparr>outages := [MalformedQuery]\<rparr>)
       = (Inr 0, ledger_B)
   \<and> fst (Item_getValue ledger_env 0 1 (ledger_A\<lparr>outages := [MalformedQuery]\<rparr>))
       = Inl MalformedQuery
   \<and> queryNftOwner ledger_env 0 1 (ledger_A\<lparr>outages := [MalformedQuery]\<rparr>)
       = (Inr None, ledger_A)"
  by (simp add: queryCollectionCount_def queryNftOwner_def ledger_env_def ledger_A_def
      ledger_B_def)

text \<open>
  C8, amended: the scripts add no retry of their own. Each of the two queries awaits its
  call once (the ledger is left in the state after that one call), and when the call
  settles the query resolves: a call that rejects, with whatever error, is caught and
  answered with the default, 0 for the count and \<open>null\<close> for the owner, and is never
  surfaced. Nothing is said of a call that stays pending.
\<close>

theorem queries_single_attempt:
  "snd (queryCollectionCount env w) = snd (Collection_getEntries env w)
   \<and> fst (queryCollectionCount env w)
       = Inr (case fst (Collection_getEntries env w) of
                Inl e \<Rightarrow> 0
              | Inr collections \<Rightarrow> length collections)
   \<and> snd (queryNftOwner env c i w) = snd (Item_getValue env c i w)
   \<and> \<not> isl (fst (queryNftOwner env c i w))
   \<and> (isl (fst (Item_getValue env c i w)) \<longrightarrow> fst (queryNftOwner env c i w) = Inr None)"
  by (auto simp: queryCollectionCount_def queryNftOwner_def
      split: prod.splits sum.splits option.splits)

theorem queries_single_attempt_witness:
  "isl (fst (Item_getValue ledger_env 0 1 (ledger_A\<lparr>outages := [MalformedQuery]\<rparr>)))
   \<and> fst (queryNftOwner ledger_env 0 1 (ledger_A\<lparr>outages := [MalformedQuery]\<rparr>)) = Inr None
   \<and> snd (queryNftOwner ledger_env 0 1 (ledger_A\<lparr>outages := [MalformedQuery]\<rparr>)) = ledger_A
   \<and> queryCollectionCount ledger_env (ledger_A\<lparr>outages := [MalformedQuery]\<rparr>)
       = (Inr 0, ledger_A)"
proof -
  have f: "Item_getValue ledger_env 0 1 (ledger_A\<lparr>outages := [MalformedQuery]\<rparr>)
             = (Inl MalformedQuery, ledger_A)"
    by (simp add: ledger_env_def ledger_A_def)
  have g: "Collection_getEntries ledger_env (ledger_A\<lparr>outages := [MalformedQuery]\<rparr>)
             = (Inl MalformedQuery, ledger_A)"
    by (simp add: ledger_env_def ledger_A_def)
  have "snd (queryCollectionCount ledger_env (ledger_A\<lparr>outages := [MalformedQuery]\<rparr>))
          = ledger_A
        \<and> fst (queryCollectionCount ledger_env (ledger_A\<lparr>outages := [MalformedQuery]\<rparr>))
          = Inr 0
        \<and> snd (queryNftOwner ledger_env 0 1 (ledger_A\<lparr>outages := [MalformedQuery]\<rparr>))
          = ledger_A
        \<and> fst (queryNftOwner ledger_env 0 1 (ledger_A\<lparr>outages := [MalformedQuery]\<rparr>))
          = Inr None"
    using f g
      queries_single_attempt [of ledger_env "ledger_A\<lparr>outages := [MalformedQuery]\<rparr>" 0 1]
    by simp
  then show ?thesis
    using f by (simp add: prod_eq_iff)
qed

section \<open>The two variants of the transfer script\<close>

lemma buildNftAsset_variants_equal:
  "buildNftAsset c i = buildNftAsset_typed c i"
  by (simp add: buildNftAsset_def buildNftAsset_typed_def)

lemma buildBeneficiary_variants_same_bytes:
  "\<exists>v v'. versioned_value (buildBeneficiary k)
             = \<lparr>parents = 0, interior = [AccountId32 None v]\<rparr>
         \<and> versioned_value (buildBeneficiary_typed k)
             = \<lparr>parents = 0, interior = [AccountId32 None v']\<rparr>
         \<and> id_bytes v = k \<and> id_bytes v' = k"
  by (simp add: buildBeneficiary_def buildBeneficiary_typed_def)

text \<open>
  C10. The two variants are to build equal parts of the outbound message, in particular
  the same destination for the same parachain id. The asset lists are equal and the
  beneficiaries carry the same bytes (the two lemmas above), but the destinations are
  not equal: for parachain 1001 and Bob's key the untyped \<open>buildDestination\<close> returns two
  junctions, the parachain and the recipient's account, where the typed one returns the
  parachain alone, the destination the README documents for \<open>dest\<close>.
\<close>

theorem buildDestination_variants_differ:
  "buildDestination 1001 bob_key
     = V4 \<lparr>parents = 1, interior = [Parachain 1001, AccountId32 None (Uint8Array bob_key)]\<rparr>
   \<and> buildDestination_typed 1001 = V4 \<lparr>parents = 1, interior = [Parachain 1001]\<rparr>
   \<and> buildDestination 1001 bob_key \<noteq> buildDestination_typed 1001"
  by (simp add: buildDestination_def buildDestination_typed_def)

section \<open>The registry keeps its mapping injective\<close>

lemma resolve_None_iff: "resolve reg l = None \<longleftrightarrow> l \<notin> fst ` set reg"
  by (simp add: resolve_def map_of_eq_None_iff)

lemma resolveReverse_None_iff: "resolveReverse reg c = None \<longleftrightarrow> c \<notin> snd ` set reg"
  by (force simp: resolveReverse_def map_of_eq_None_iff image_iff)

lemma register_preserves_injective:
  assumes "injective reg"
  shows "injective (snd (register l c reg))"
  using assms
  by (auto simp: register_def injective_def resolve_None_iff resolveReverse_None_iff)

lemma register_all_preserves_injective:
  "injective reg \<Longrightarrow> injective (register_all rs reg)"
proof (induction rs arbitrary: reg)
  case Nil
  then show ?case by simp
next
  case (Cons r rs)
  obtain l c where r: "r = (l, c)" by (cases r)
  from Cons.prems have "injective (snd (register l c reg))"
    by (rule register_preserves_injective)
  then show ?case
    using Cons.IH r by simp
qed

lemma injective_resolve_eq:
  assumes "injective reg" and "resolve reg l1 = Some k" and "resolve reg l2 = Some k"
  shows "l1 = l2"
proof -
  have m1: "(l1, k) \<in> set reg" and m2: "(l2, k) \<in> set reg"
    using assms(2,3) by (auto simp: resolve_def dest: map_of_SomeD)
  have "inj_on snd (set reg)"
    using assms(1) by (simp add: injective_def distinct_map)
  from inj_onD [OF this _ m1 m2] show ?thesis by simp
qed

lemma register_keeps_entries:
  assumes "resolve reg l = Some k"
  shows "resolve (snd (register l' c' reg)) l = Some k"
  using assms
  by (simp add: register_def resolve_def map_add_Some_iff)

lemma register_same_collection_twice:
  assumes "fst (register l1 c reg) = Inr ()" and "l1 \<noteq> l2" and "resolve reg l2 = None"
  shows "register l2 c (snd (register l1 c reg)) = (Inl CollectionInUse, reg @ [(l1, c)])"
proof -
  have ok: "resolve reg l1 = None" "resolveReverse reg c = None"
    using assms(1) by (auto simp: register_def split: if_splits)
  then have r1: "snd (register l1 c reg) = reg @ [(l1, c)]"
    by (simp add: register_def)
  have "resolve (reg @ [(l1, c)]) l2 = None"
    using assms(2,3) by (simp add: resolve_None_iff)
  moreover have "resolveReverse (reg @ [(l1, c)]) c \<noteq> None"
    by (simp add: resolveReverse_None_iff)
  ultimately have "register l2 c (reg @ [(l1, c)]) = (Inl CollectionInUse, reg @ [(l1, c)])"
    by (simp add: register_def)
  then show ?thesis
    by (simp only: r1)
qed

text \<open>
  C9. The registry is injective and append-only: \<open>register\<close> fails with \<open>AlreadyMapped\<close> when
  the foreign location has an entry, and with \<open>CollectionInUse\<close> when it has none and the
  local collection id is the target of an entry; after a successful \<open>register\<close> of a
  collection id, a second one with another, unmapped foreign location and the same
  collection id fails with \<open>CollectionInUse\<close>; whatever calls are made from the empty
  registry, no two foreign locations resolve to the same collection id; and a call never
  changes or removes an entry, it leaves the registry as it is or appends to it.
\<close>

theorem register_injective_append_only:
  "(resolve reg l \<noteq> None \<longrightarrow> register l c reg = (Inl AlreadyMapped, reg))
   \<and> (resolve reg2 l2 = None \<and> resolveReverse reg2 c2 \<noteq> None
      \<longrightarrow> register l2 c2 reg2 = (Inl CollectionInUse, reg2))
   \<and> (fst (register la k reg3) = Inr () \<and> la \<noteq> lb \<and> resolve reg3 lb = None
      \<longrightarrow> fst (register lb k (snd (register la k reg3))) = Inl CollectionInUse)
   \<and> injective (register_all rs [])
   \<and> (resolve (register_all rs []) lx = Some m \<and> resolve (register_all rs []) ly = Some m
      \<longrightarrow> lx = ly)
   \<and> (resolve reg4 l4 = Some c4 \<longrightarrow> resolve (snd (register l5 c5 reg4)) l4 = Some c4)
   \<and> (\<exists>new. snd (register l6 c6 reg6) = reg6 @ new)"
proof -
  have inj: "injective (register_all rs [])"
    by (rule register_all_preserves_injective) (simp add: injective_def)
  have "resolve reg l \<noteq> None \<longrightarrow> register l c reg = (Inl AlreadyMapped, reg)"
    by (simp add: register_def)
  moreover have "resolve reg2 l2 = None \<and> resolveReverse reg2 c2 \<noteq> None
      \<longrightarrow> register l2 c2 reg2 = (Inl CollectionInUse, reg2)"
    by (simp add: register_def)
  moreover have "fst (register la k reg3) = Inr () \<and> la \<noteq> lb \<and> resolve reg3 lb = None
      \<longrightarrow> fst (register lb k (snd (register la k reg3))) = Inl CollectionInUse"
    by (simp add: register_same_collection_twice)
  moreover have "resolve (register_all rs []) lx = Some m \<and> resolve (register_all rs []) ly = Some m
      \<longrightarrow> lx = ly"
    using injective_resolve_eq [OF inj] by blast
  moreover have "resolve reg4 l4 = Some c4 \<longrightarrow> resolve (snd (register l5 c5 reg4)) l4 = Some c4"
    by (simp add: register_keeps_entries)
  moreover have "\<exists>new. snd (register l6 c6 reg6) = reg6 @ new"
    by (simp add: register_def)
  ultimately show ?thesis
    using inj by blast
qed

theorem register_injective_append_only_witness:
  "register (versioned_value (buildDestination_typed 1000)) 6
      [(versioned_value (buildDestination_typed 1000), 5)]
     = (Inl AlreadyMapped, [(versioned_value (buildDestination_typed 1000), 5)])
   \<and> register (versioned_value (buildDestination_typed 1001)) 5
      [(versioned_value (buildDestination_typed 1000), 5)]
     = (Inl CollectionInUse, [(versioned_value (buildDestination_typed 1000), 5)])
   \<and> fst (register (versioned_value (buildDestination_typed 1001)) 5
        (snd (register (versioned_value (buildDestination_typed 1000)) 5 [])))
     = Inl CollectionInUse
   \<and> resolve (snd (register (versioned_value (buildDestination_typed 1001)) 6
        [(versioned_value (buildDestination_typed 1000), 5)]))
        (versioned_value (buildDestination_typed 1000)) = Some 5
   \<and> register_all
        [(versioned_value (buildDestination_typed 1000), 5),
         (versioned_value (buildDestination_typed 1001), 5),
         (versioned_value (buildDestination_typed 1001), 6)] []
     = [(versioned_value (buildDestination_typed 1000), 5),
        (versioned_value (buildDestination_typed 1001), 6)]
   \<and> injective (register_all
        [(versioned_value (buildDestination_typed 1000), 5),
         (versioned_value (buildDestination_typed 1001), 5),
         (versioned_value (buildDestination_typed 1001), 6)] [])"
proof -
  let ?A = "versioned_value (buildDestination_typed 1000)"
  let ?B = "versioned_value (buildDestination_typed 1001)"
  have ne: "?A \<noteq> ?B"
    by (simp add: buildDestination_typed_def)
  have h1: "resolve [(?A, 5)] ?A \<noteq> None"
    by (simp add: resolve_def)
  have h2: "resolve [(?A, 5)] ?B = None \<and> resolveReverse [(?A, 5)] 5 \<noteq> None"
    using ne by (simp add: resolve_def resolveReverse_def)
  have h3: "fst (register ?A 5 []) = Inr () \<and> ?A \<noteq> ?B \<and> resolve [] ?B = None"
    using ne by (simp add: register_def resolve_def resolveReverse_def)
  have h4: "resolve [(?A, 5)] ?A = Some 5"
    by (simp add: resolve_def)
  have h5: "register_all [(?A, 5), (?B, 5), (?B, 6)] [] = [(?A, 5), (?B, 6)]"
    using ne by (simp add: register_def resolve_def resolveReverse_def)
  have h6: "resolve (register_all [(?A, 5), (?B, 5), (?B, 6)] []) ?B = Some 6"
    using ne by (simp only: h5) (simp add: resolve_def)
  show ?thesis
    using h1 h2 h3 h4 h5 h6
      register_injective_append_only [where reg = "[(?A, 5)]" and l = ?A and c = 6
        and ?reg2.0 = "[(?A, 5)]" and ?l2.0 = ?B and ?c2.0 = 5
        and la = ?A and lb = ?B and k = 5 and ?reg3.0 = "[]"
        and ?reg4.0 = "[(?A, 5)]" and ?l4.0 = ?A and ?c4.0 = 5 and ?l5.0 = ?B and ?c5.0 = 6
        and rs = "[(?A, 5), (?B, 5), (?B, 6)]" and lx = ?B and ly = ?B and m = 6]
    by blast
qed

end
